theory Spec2Isabelle
  imports Main "HOL-Library.Char_ord" "HOL-Library.List_Lexorder" "HOL-Library.Sublist"
begin

section \<open>Extension properties of honeybee-core (honeybee/properties.py)\<close>

text \<open>
  The module defines a base class \<open>_Properties\<close> and six host-specific subclasses
  (\<open>ModelProperties\<close>, \<open>RoomProperties\<close>, \<open>FaceProperties\<close>, \<open>ShadeProperties\<close>,
  \<open>ApertureProperties\<close>, \<open>DoorProperties\<close>). Extension packages attach members to
  these classes; the base class walks the public members found by \<open>dir(self)\<close> and
  calls whichever of \<open>duplicate\<close>, \<open>add_prefix\<close>, \<open>reset_to_default\<close>, \<open>to_dict\<close>,
  \<open>from_dict\<close> each value has.
\<close>

subsection \<open>Python values seen by the module\<close>

datatype variant = Model | Room | Face | Shade | Aperture | Door

text \<open>
  The host geometry object is handed to extension operations by reference; the
  reference is all the module itself ever uses of it.
\<close>

datatype host = Host string

text \<open>
  Exceptions, by the classes the module's handlers tell apart: \<open>except KeyError\<close> catches
  the first, \<open>except Exception\<close> catches the first three, and \<open>BaseException\<close> stands
  for a raise outside \<open>Exception\<close> (\<open>KeyboardInterrupt\<close>, \<open>SystemExit\<close>), which no
  handler of the module catches. \<open>KeyError\<close> carries the missing key, the others
  their message.
\<close>

datatype exn = KeyError string | AttributeError string | Exception string | BaseException string

fun is_Exception :: "exn \<Rightarrow> bool" where
  "is_Exception (BaseException m) = False"
| "is_Exception e = True"

fun is_KeyError :: "exn \<Rightarrow> bool" where
  "is_KeyError (KeyError k) = True"
| "is_KeyError e = False"

definition quote :: "string \<Rightarrow> string" where
  "quote s = CHR 0x27 # s @ [CHR 0x27]"

text \<open>\<open>str(e)\<close>: a \<open>KeyError\<close> prints the \<open>repr\<close> of its key.\<close>

fun str_exn :: "exn \<Rightarrow> string" where
  "str_exn (KeyError k) = quote k"
| "str_exn (AttributeError m) = m"
| "str_exn (Exception m) = m"
| "str_exn (BaseException m) = m"

datatype json = JNull | JBool bool | JNum int | JStr string
  | JList "json list" | JDict "(string \<times> json) list"

type_synonym dict = "string \<rightharpoonup> json"

text \<open>
  A value that \<open>getattr\<close> can return, as far as the module observes it: its \<open>str()\<close>
  (used in error messages) and, for each of the five capability names, either nothing
  (\<open>hasattr\<close> is false) or what calling it does. A call returns a value or raises.
  \<^item> \<open>add_prefix\<close> and \<open>reset_to_default\<close> mutate their receiver in place: the
    model returns the receiver's new state.
  \<^item> \<open>to_dict\<close> takes the \<open>abridged\<close> flag, or \<open>None\<close> when it is called with no
    argument (as \<open>ModelProperties.to_dict\<close> does).
  \<^item> \<open>from_dict\<close> is what \<open>var.__class__.from_dict(data, host)\<close> does.
  An extension operation is taken to act on its receiver only; two slots of a
  properties object are taken to hold distinct objects.
\<close>

datatype pyobj = PyObj
  (str_of: string)
  (duplicate: "(host \<Rightarrow> exn + pyobj) option")
  (add_prefix: "(string \<Rightarrow> exn + pyobj) option")
  (reset_to_default: "(exn + pyobj) option")
  (to_dict: "(bool option \<Rightarrow> exn + dict) option")
  (from_dict: "(json \<Rightarrow> host \<Rightarrow> exn + pyobj) option")

text \<open>A value with none of the five capabilities: a bound method, a tuple, a string, \<open>None\<close>.\<close>

definition opaque :: "string \<Rightarrow> pyobj" where
  "opaque s = PyObj s None None None None None"

subsection \<open>Properties objects\<close>

text \<open>
  A properties object: its class, the host stored by \<open>__init__\<close> in \<open>self._host\<close>
  (the reference, and the host as a value for \<open>getattr(self, 'host')\<close>), and what
  extensions have attached:
  \<^item> \<open>slots\<close>: data attributes, of the class or of the instance (the first entry for a
    name is the current one, so an instance attribute shadows a class attribute);
  \<^item> \<open>accessors\<close>: properties without setter installed on the class; the getter of
    \<open>(name, slot)\<close> returns the data attribute \<open>slot\<close> of the instance.
\<close>

record properties =
  cls :: variant
  host :: host
  host_object :: pyobj
  slots :: "(string \<times> pyobj) list"
  accessors :: "(string \<times> string) list"

text \<open>\<open>_Properties.__init__\<close>.\<close>

definition init_properties :: "variant \<Rightarrow> host \<Rightarrow> pyobj \<Rightarrow> properties" where
  "init_properties c h hobj =
     \<lparr>cls = c, host = h, host_object = hobj, slots = [], accessors = []\<rparr>"

text \<open>The names every Python object inherits from \<open>object\<close>.\<close>

definition object_members :: "string list" where
  "object_members =
     [''__class__'', ''__delattr__'', ''__dict__'', ''__dir__'', ''__doc__'', ''__eq__'',
      ''__format__'', ''__ge__'', ''__getattribute__'', ''__gt__'', ''__hash__'',
      ''__init__'', ''__init_subclass__'', ''__le__'', ''__lt__'', ''__module__'',
      ''__ne__'', ''__new__'', ''__reduce__'', ''__reduce_ex__'', ''__repr__'',
      ''__setattr__'', ''__sizeof__'', ''__str__'', ''__subclasshook__'', ''__weakref__'']"

text \<open>The members \<open>_Properties\<close> defines, and those each subclass adds.\<close>

definition base_members :: "string list" where
  "base_members =
     [''_do_not_duplicate'', ''__init__'', ''host'', ''_duplicate_extension_attr'',
      ''_add_prefix_extension_attr'', ''_reset_extension_attr_to_default'',
      ''_add_extension_attr_to_dict'', ''_load_extension_attr_from_dict'',
      ''ToString'', ''__repr__'']"

fun class_members :: "variant \<Rightarrow> string list" where
  "class_members Model =
     base_members @ [''to_dict'', ''apply_properties_from_dict'', ''__repr__'']"
| "class_members v =
     base_members @ [''to_dict'', ''add_prefix'', ''reset_to_default'', ''__repr__'']"

fun class_name :: "variant \<Rightarrow> string" where
  "class_name Model = ''ModelProperties''"
| "class_name Room = ''RoomProperties''"
| "class_name Face = ''FaceProperties''"
| "class_name Shade = ''ShadeProperties''"
| "class_name Aperture = ''ApertureProperties''"
| "class_name Door = ''DoorProperties''"

text \<open>\<open>dir(self)\<close>: the names of the class, of its bases and of the instance, sorted.\<close>

definition py_dir :: "properties \<Rightarrow> string list" where
  "py_dir self =
     sort (remdups (object_members @ class_members (cls self) @ [''_host'']
                    @ map fst (slots self) @ map fst (accessors self)))"

fun startswith_underscore :: "string \<Rightarrow> bool" where
  "startswith_underscore [] = False"
| "startswith_underscore (c # cs) = (c = CHR ''_'')"

definition do_not_duplicate :: "string list" where
  "do_not_duplicate = [''host'', ''to_dict'', ''ToString'']"

text \<open>
  The comprehension that opens every operation of the base class and
  \<open>ModelProperties.apply_properties_from_dict\<close>:
  \<^verbatim>\<open>[atr for atr in dir(self) if not atr.startswith('_') and atr not in self._do_not_duplicate]\<close>
\<close>

definition extension_attributes :: "properties \<Rightarrow> string list" where
  "extension_attributes self =
     filter (\<lambda>atr. \<not> startswith_underscore atr \<and> atr \<notin> set do_not_duplicate) (py_dir self)"

text \<open>
  The comprehension inside \<open>ModelProperties.to_dict\<close>:
  \<^verbatim>\<open>[atr for atr in dir(self) if not atr.startswith('_') and atr != 'host']\<close>
\<close>

definition model_to_dict_attributes :: "properties \<Rightarrow> string list" where
  "model_to_dict_attributes self =
     filter (\<lambda>atr. \<not> startswith_underscore atr \<and> atr \<noteq> ''host'') (py_dir self)"

text \<open>
  The class object, reached as \<open>__class__\<close>. The subclasses define \<open>to_dict\<close>,
  \<open>add_prefix\<close> and \<open>reset_to_default\<close> as plain functions, so \<open>hasattr\<close> finds them on
  the class, and calling them there, without an instance, raises.
\<close>

definition class_object :: "variant \<Rightarrow> pyobj" where
  "class_object v =
     PyObj (''<class '' @ quote (''honeybee.properties.'' @ class_name v) @ ''>'')
       None
       (if v = Model then None
        else Some (\<lambda>pfx. Inl (Exception
               (''add_prefix() missing 1 required positional argument: '' @ quote ''prefix''))))
       (if v = Model then None
        else Some (Inl (Exception
               (''reset_to_default() missing 1 required positional argument: '' @ quote ''self''))))
       (Some (\<lambda>abridged. case abridged of
                None \<Rightarrow> Inl (Exception
                  (''to_dict() missing 1 required positional argument: '' @ quote ''self''))
              | Some b \<Rightarrow> Inl (AttributeError
                  (quote ''bool'' @ '' object has no attribute ''
                   @ quote ''_add_extension_attr_to_dict''))))
       None"

text \<open>
  \<open>getattr(self, name)\<close>: a property of the class first, then a data attribute, then
  the members the module itself defines; \<open>AttributeError\<close> otherwise.
\<close>

definition no_attribute :: "properties \<Rightarrow> string \<Rightarrow> exn" where
  "no_attribute self name =
     AttributeError (quote (class_name (cls self)) @ '' object has no attribute '' @ quote name)"

definition getattr :: "properties \<Rightarrow> string \<Rightarrow> exn + pyobj" where
  "getattr self name =
     (case map_of (accessors self) name of
        Some slot \<Rightarrow>
          (case map_of (slots self) slot of
             Some v \<Rightarrow> Inr v
           | None \<Rightarrow> Inl (no_attribute self slot))
      | None \<Rightarrow>
          (case map_of (slots self) name of
             Some v \<Rightarrow> Inr v
           | None \<Rightarrow>
               if name = ''host'' \<or> name = ''_host'' then Inr (host_object self)
               else if name = ''__class__'' then Inr (class_object (cls self))
               else if name \<in> set (object_members @ class_members (cls self))
               then Inr (opaque name)
               else Inl (no_attribute self name)))"

text \<open>
  \<open>setattr(self, name, value)\<close>: a property without setter refuses the assignment,
  anything else lands in the instance's dictionary.
\<close>

definition setattr :: "properties \<Rightarrow> string \<Rightarrow> pyobj \<Rightarrow> exn + properties" where
  "setattr self name v =
     (if name \<in> fst ` set (accessors self)
      then Inl (AttributeError (''can'' @ [CHR 0x27] @ ''t set attribute''))
      else Inr (self\<lparr>slots := (name, v) # slots self\<rparr>))"

text \<open>
  Where the object returned by \<open>getattr(self, atr)\<close> lives, and the write-back that
  stands for mutating that object in place.
\<close>

definition location :: "properties \<Rightarrow> string \<Rightarrow> string" where
  "location self atr = (case map_of (accessors self) atr of Some slot \<Rightarrow> slot | None \<Rightarrow> atr)"

definition mutated :: "properties \<Rightarrow> string \<Rightarrow> pyobj \<Rightarrow> properties" where
  "mutated self atr var' = self\<lparr>slots := (location self atr, var') # slots self\<rparr>"

text \<open>
  The handler shared by four operations and \<open>ModelProperties.to_dict\<close>:
  \<^verbatim>\<open>except Exception as e: raise Exception('Failed to ... {} ...: {}'.format(var, e))\<close>
  (\<open>traceback.print_exc()\<close> only writes to standard error).
\<close>

definition reraise :: "string \<Rightarrow> string \<Rightarrow> pyobj \<Rightarrow> exn \<Rightarrow> exn" where
  "reraise before after var e =
     (if is_Exception e then Exception (before @ str_of var @ after @ str_exn e) else e)"

subsection \<open>The operations of \<open>_Properties\<close>\<close>

text \<open>\<open>_duplicate_extension_attr\<close>: \<open>self\<close> is the new object, the original is only read.\<close>

fun duplicate_loop :: "properties \<Rightarrow> properties \<Rightarrow> string list \<Rightarrow> exn + properties" where
  "duplicate_loop self original_properties [] = Inr self"
| "duplicate_loop self original_properties (atr # attr) =
     (case getattr original_properties atr of
        Inl e \<Rightarrow> Inl e
      | Inr var \<Rightarrow>
          (case duplicate var of
             None \<Rightarrow> duplicate_loop self original_properties attr
           | Some dup \<Rightarrow>
               (case (case dup (host self) of
                        Inl e \<Rightarrow> Inl e
                      | Inr new \<Rightarrow> setattr self (CHR ''_'' # atr) new) of
                  Inl e \<Rightarrow> Inl (reraise ''Failed to duplicate '' '': '' var e)
                | Inr self' \<Rightarrow> duplicate_loop self' original_properties attr)))"

definition duplicate_extension_attr :: "properties \<Rightarrow> properties \<Rightarrow> exn + properties" where
  "duplicate_extension_attr self original_properties =
     duplicate_loop self original_properties (extension_attributes self)"

text \<open>\<open>_add_prefix_extension_attr\<close>.\<close>

fun add_prefix_loop :: "properties \<Rightarrow> string \<Rightarrow> string list \<Rightarrow> exn + properties" where
  "add_prefix_loop self pfx [] = Inr self"
| "add_prefix_loop self pfx (atr # attr) =
     (case getattr self atr of
        Inl e \<Rightarrow> Inl e
      | Inr var \<Rightarrow>
          (case add_prefix var of
             None \<Rightarrow> add_prefix_loop self pfx attr
           | Some f \<Rightarrow>
               (case f pfx of
                  Inl e \<Rightarrow> Inl (reraise ''Failed to add prefix to '' '': '' var e)
                | Inr var' \<Rightarrow> add_prefix_loop (mutated self atr var') pfx attr)))"

definition add_prefix_extension_attr :: "properties \<Rightarrow> string \<Rightarrow> exn + properties" where
  "add_prefix_extension_attr self pfx =
     add_prefix_loop self pfx (extension_attributes self)"

text \<open>\<open>_reset_extension_attr_to_default\<close>.\<close>

fun reset_loop :: "properties \<Rightarrow> string list \<Rightarrow> exn + properties" where
  "reset_loop self [] = Inr self"
| "reset_loop self (atr # attr) =
     (case getattr self atr of
        Inl e \<Rightarrow> Inl e
      | Inr var \<Rightarrow>
          (case reset_to_default var of
             None \<Rightarrow> reset_loop self attr
           | Some r \<Rightarrow>
               (case r of
                  Inl e \<Rightarrow> Inl (reraise ''Failed to reset_to_default for '' '': '' var e)
                | Inr var' \<Rightarrow> reset_loop (mutated self atr var') attr)))"

definition reset_extension_attr_to_default :: "properties \<Rightarrow> exn + properties" where
  "reset_extension_attr_to_default self = reset_loop self (extension_attributes self)"

text \<open>
  The loop of \<open>_add_extension_attr_to_dict\<close> and of \<open>ModelProperties.to_dict\<close>; the two
  differ in the argument of \<open>var.to_dict\<close> only (\<open>abridged\<close>, or none).
  \<open>base.update(d)\<close> is \<open>base ++ d\<close>.
\<close>

fun to_dict_loop :: "properties \<Rightarrow> dict \<Rightarrow> bool option \<Rightarrow> string list \<Rightarrow> exn + dict" where
  "to_dict_loop self base arg [] = Inr base"
| "to_dict_loop self base arg (atr # attr) =
     (case getattr self atr of
        Inl e \<Rightarrow> Inl e
      | Inr var \<Rightarrow>
          (case to_dict var of
             None \<Rightarrow> to_dict_loop self base arg attr
           | Some f \<Rightarrow>
               (case f arg of
                  Inl e \<Rightarrow> Inl (reraise ''Failed to convert '' '' to a dict: '' var e)
                | Inr d \<Rightarrow> to_dict_loop self (base ++ d) arg attr)))"

text \<open>
  The names \<open>_add_extension_attr_to_dict\<close> walks: the \<open>include\<close> list when one is
  given, the enumeration otherwise.
\<close>

definition selected :: "properties \<Rightarrow> string list option \<Rightarrow> string list" where
  "selected self include =
     (case include of Some names \<Rightarrow> names | None \<Rightarrow> extension_attributes self)"

definition add_extension_attr_to_dict ::
  "properties \<Rightarrow> dict \<Rightarrow> bool \<Rightarrow> string list option \<Rightarrow> exn + dict" where
  "add_extension_attr_to_dict self base abridged include =
     to_dict_loop self base (Some abridged) (selected self include)"

text \<open>
  \<open>_load_extension_attr_from_dict\<close>. The \<open>try\<close> covers the lookup
  \<open>property_dict[atr]\<close>, the call of \<open>from_dict\<close> and the \<open>setattr\<close>; its only handler
  is \<open>except KeyError: pass\<close>.
\<close>

fun load_loop :: "properties \<Rightarrow> dict \<Rightarrow> string list \<Rightarrow> exn + properties" where
  "load_loop self property_dict [] = Inr self"
| "load_loop self property_dict (atr # attr) =
     (case getattr self atr of
        Inl e \<Rightarrow> Inl e
      | Inr var \<Rightarrow>
          (case from_dict var of
             None \<Rightarrow> load_loop self property_dict attr
           | Some f \<Rightarrow>
               (case (case property_dict atr of
                        None \<Rightarrow> Inl (KeyError atr)
                      | Some data \<Rightarrow>
                          (case f data (host self) of
                             Inl e \<Rightarrow> Inl e
                           | Inr new \<Rightarrow> setattr self (CHR ''_'' # atr) new)) of
                  Inl e \<Rightarrow> if is_KeyError e then load_loop self property_dict attr else Inl e
                | Inr self' \<Rightarrow> load_loop self' property_dict attr)))"

definition load_extension_attr_from_dict :: "properties \<Rightarrow> dict \<Rightarrow> exn + properties" where
  "load_extension_attr_from_dict self property_dict =
     load_loop self property_dict (extension_attributes self)"

subsection \<open>The \<open>to_dict\<close> of the six classes\<close>

definition model_selected :: "properties \<Rightarrow> string list option \<Rightarrow> string list" where
  "model_selected self include =
     (case include of Some names \<Rightarrow> names | None \<Rightarrow> model_to_dict_attributes self)"

definition ModelProperties_to_dict :: "properties \<Rightarrow> string list option \<Rightarrow> exn + dict" where
  "ModelProperties_to_dict self include =
     to_dict_loop self [''type'' \<mapsto> JStr ''ModelProperties''] None (model_selected self include)"

definition RoomProperties_to_dict ::
  "properties \<Rightarrow> bool \<Rightarrow> string list option \<Rightarrow> exn + dict" where
  "RoomProperties_to_dict self abridged include =
     add_extension_attr_to_dict self
       (if \<not> abridged then [''type'' \<mapsto> JStr ''RoomProperties'']
        else [''type'' \<mapsto> JStr ''RoomPropertiesAbridged''])
       abridged include"

definition FaceProperties_to_dict ::
  "properties \<Rightarrow> bool \<Rightarrow> string list option \<Rightarrow> exn + dict" where
  "FaceProperties_to_dict self abridged include =
     add_extension_attr_to_dict self
       (if \<not> abridged then [''type'' \<mapsto> JStr ''FaceProperties'']
        else [''type'' \<mapsto> JStr ''FacePropertiesAbridged''])
       abridged include"

definition ShadeProperties_to_dict ::
  "properties \<Rightarrow> bool \<Rightarrow> string list option \<Rightarrow> exn + dict" where
  "ShadeProperties_to_dict self abridged include =
     add_extension_attr_to_dict self
       (if \<not> abridged then [''type'' \<mapsto> JStr ''ShadeProperties'']
        else [''type'' \<mapsto> JStr ''ShadePropertiesAbridged''])
       abridged include"

definition ApertureProperties_to_dict ::
  "properties \<Rightarrow> bool \<Rightarrow> string list option \<Rightarrow> exn + dict" where
  "ApertureProperties_to_dict self abridged include =
     add_extension_attr_to_dict self
       (if \<not> abridged then [''type'' \<mapsto> JStr ''ApertureProperties'']
        else [''type'' \<mapsto> JStr ''AperturePropertiesAbridged''])
       abridged include"

definition DoorProperties_to_dict ::
  "properties \<Rightarrow> bool \<Rightarrow> string list option \<Rightarrow> exn + dict" where
  "DoorProperties_to_dict self abridged include =
     add_extension_attr_to_dict self
       (if \<not> abridged then [''type'' \<mapsto> JStr ''DoorProperties'']
        else [''type'' \<mapsto> JStr ''DoorPropertiesAbridged''])
       abridged include"

text \<open>
  What the serialization of an attached value looks like: \<open>emits self arg atr d\<close> says
  that \<open>getattr(self, atr)\<close> returns a value with \<open>to_dict\<close>, and that calling it with
  \<open>arg\<close> returns the map \<open>d\<close>.
\<close>

definition emits :: "properties \<Rightarrow> bool option \<Rightarrow> string \<Rightarrow> dict \<Rightarrow> bool" where
  "emits self arg atr d \<longleftrightarrow>
     (\<exists>var td. getattr self atr = Inr var \<and> to_dict var = Some td \<and> td arg = Inr d)"

text \<open>\<open>silent self arg names k\<close>: none of \<open>names\<close> serializes to a map with the key \<open>k\<close>.\<close>

definition silent :: "properties \<Rightarrow> bool option \<Rightarrow> string list \<Rightarrow> string \<Rightarrow> bool" where
  "silent self arg names k \<longleftrightarrow> (\<forall>atr \<in> set names. \<forall>d. emits self arg atr d \<longrightarrow> d k = None)"



subsection \<open>Example objects\<close>

text \<open>
  An extension value that can be duplicated: the copy is bound to the new host.
\<close>

definition energy_duplicate :: "host \<Rightarrow> exn + pyobj" where
  "energy_duplicate h = Inr (opaque (''energy properties of '' @ (case h of Host n \<Rightarrow> n)))"

definition energy_add_prefix :: "string \<Rightarrow> exn + pyobj" where
  "energy_add_prefix pfx = Inr (opaque (pfx @ ''_energy properties''))"

definition energy_to_dict :: "bool option \<Rightarrow> exn + dict" where
  "energy_to_dict abridged =
     Inr [''energy'' \<mapsto> JDict [(''type'',
            JStr (if abridged = Some True then ''RoomEnergyPropertiesAbridged''
                  else ''RoomEnergyProperties''))]]"

text \<open>
  Its \<open>from_dict\<close> reads \<open>data['type']\<close>: a sub-map without that key raises
  \<open>KeyError\<close>, a value that is no map raises \<open>TypeError\<close>.
\<close>

definition energy_loaded :: "json \<Rightarrow> pyobj" where
  "energy_loaded data =
     PyObj ''energy properties (loaded)'' None None None
       (Some (\<lambda>abridged. Inr [''energy'' \<mapsto> data])) None"

definition energy_from_dict :: "json \<Rightarrow> host \<Rightarrow> exn + pyobj" where
  "energy_from_dict data h =
     (case data of
        JDict kvs \<Rightarrow>
          (case map_of kvs ''type'' of
             None \<Rightarrow> Inl (KeyError ''type'')
           | Some t \<Rightarrow> Inr (energy_loaded data))
      | _ \<Rightarrow> Inl (Exception ''string indices must be integers''))"

definition energy_value :: pyobj where
  "energy_value =
     PyObj ''energy properties of room_1'' (Some energy_duplicate) (Some energy_add_prefix)
       None (Some energy_to_dict) (Some energy_from_dict)"

text \<open>Values that can only be serialized: one that works, one that raises, one whose
  map has a \<open>type\<close> key of its own.\<close>

definition radiance_value :: pyobj where
  "radiance_value =
     PyObj ''radiance properties of room_1'' None None None
       (Some (\<lambda>abridged. Inr [''radiance'' \<mapsto> JDict [(''type'', JStr ''RoomRadianceProperties'')]]))
       None"

definition broken_value :: pyobj where
  "broken_value =
     PyObj ''properties of room_1'' None None None
       (Some (\<lambda>abridged. Inl (Exception ''boom''))) None"

definition tagging_value :: pyobj where
  "tagging_value =
     PyObj ''tags of room_1'' None None None
       (Some (\<lambda>abridged. Inr [''type'' \<mapsto> JStr ''Custom''])) None"

text \<open>
  The original room's properties and the properties of its copy, with \<open>energy\<close>
  attached the way extensions do it (a property of the class reading \<open>_energy\<close>, which
  the class initialises to \<open>None\<close>), and the same pair with \<open>energy\<close> attached as a plain
  data attribute.
\<close>

definition room_original :: properties where
  "room_original =
     \<lparr>cls = Room, host = Host ''room_1'', host_object = opaque ''Room: room_1'',
      slots = [(''_energy'', energy_value)], accessors = [(''energy'', ''_energy'')]\<rparr>"

definition room_copy :: properties where
  "room_copy =
     \<lparr>cls = Room, host = Host ''room_2'', host_object = opaque ''Room: room_2'',
      slots = [(''_energy'', opaque ''None'')], accessors = [(''energy'', ''_energy'')]\<rparr>"

definition plain_original :: properties where
  "plain_original =
     \<lparr>cls = Room, host = Host ''room_1'', host_object = opaque ''Room: room_1'',
      slots = [(''energy'', energy_value)], accessors = []\<rparr>"

definition plain_copy :: properties where
  "plain_copy =
     \<lparr>cls = Room, host = Host ''room_2'', host_object = opaque ''Room: room_2'',
      slots = [(''energy'', opaque ''stale'')], accessors = []\<rparr>"

text \<open>
  A properties object of any class with two extensions, two rooms with the value that
  fails attached under different names, and an object with the tagging value.
\<close>

definition two_extensions :: "variant \<Rightarrow> properties" where
  "two_extensions v =
     \<lparr>cls = v, host = Host ''host_1'', host_object = opaque ''host_1'',
      slots = [(''_energy'', energy_value), (''_radiance'', radiance_value)],
      accessors = [(''energy'', ''_energy''), (''radiance'', ''_radiance'')]\<rparr>"

definition broken_as_energy :: properties where
  "broken_as_energy =
     \<lparr>cls = Room, host = Host ''room_1'', host_object = opaque ''Room: room_1'',
      slots = [(''_energy'', broken_value)], accessors = [(''energy'', ''_energy'')]\<rparr>"

definition broken_as_radiance :: properties where
  "broken_as_radiance =
     \<lparr>cls = Room, host = Host ''room_1'', host_object = opaque ''Room: room_1'',
      slots = [(''_radiance'', broken_value)], accessors = [(''radiance'', ''_radiance'')]\<rparr>"

definition tagging :: "variant \<Rightarrow> properties" where
  "tagging v =
     \<lparr>cls = v, host = Host ''host_1'', host_object = opaque ''host_1'',
      slots = [(''_tags'', tagging_value)], accessors = [(''tags'', ''_tags'')]\<rparr>"

text \<open>
  A freshly made room whose \<open>energy\<close> holds a default value of the same class as
  \<open>energy_value\<close>: the target of a load.
\<close>

definition energy_default :: pyobj where
  "energy_default =
     PyObj ''energy properties of room_3'' (Some energy_duplicate) (Some energy_add_prefix)
       None (Some (\<lambda>abridged. Inr [''energy'' \<mapsto> JDict [(''type'', JStr ''Default'')]]))
       (Some energy_from_dict)"

definition room_fresh :: properties where
  "room_fresh =
     \<lparr>cls = Room, host = Host ''room_3'', host_object = opaque ''Room: room_3'',
      slots = [(''_energy'', energy_default)], accessors = [(''energy'', ''_energy'')]\<rparr>"


section \<open>Properties of the enumeration\<close>

lemma extension_attributes_public:
  "atr \<in> set (extension_attributes self) \<Longrightarrow>
     \<not> startswith_underscore atr \<and> atr \<notin> set do_not_duplicate"
  by (simp add: extension_attributes_def)

lemma distinct_extension_attributes: "distinct (extension_attributes self)"
  by (simp add: extension_attributes_def py_dir_def)

lemma setattr_Inr:
  "setattr self name v = Inr self' \<Longrightarrow> self' = self\<lparr>slots := (name, v) # slots self\<rparr>"
  by (simp add: setattr_def split: if_splits)

section \<open>Duplication\<close>

text \<open>
  What a run of the duplication loop leaves alone: the class, the host, the accessors,
  and every slot that is not \<open>'_' + atr\<close> for a visited name.
\<close>

lemma duplicate_loop_frame:
  "duplicate_loop self original attr = Inr self' \<Longrightarrow>
     cls self' = cls self \<and> host self' = host self \<and> host_object self' = host_object self
     \<and> accessors self' = accessors self
     \<and> (\<forall>k. k \<notin> (\<lambda>a. CHR ''_'' # a) ` set attr
            \<longrightarrow> map_of (slots self') k = map_of (slots self) k)"
proof (induction attr arbitrary: self)
  case Nil
  then show ?case by simp
next
  case (Cons atr attr)
  from Cons.prems obtain var where var: "getattr original atr = Inr var"
    by (auto split: sum.splits)
  show ?case
  proof (cases "duplicate var")
    case None
    with Cons.prems var have "duplicate_loop self original attr = Inr self'" by simp
    from Cons.IH[OF this] show ?thesis by simp
  next
    case (Some dup)
    with Cons.prems var obtain new self1 where
      new: "dup (host self) = Inr new" and
      s1: "setattr self (CHR ''_'' # atr) new = Inr self1" and
      rest: "duplicate_loop self1 original attr = Inr self'"
      by (auto split: sum.splits)
    from setattr_Inr[OF s1]
    have eq: "self1 = self\<lparr>slots := (CHR ''_'' # atr, new) # slots self\<rparr>" .
    from Cons.IH[OF rest] show ?thesis by (auto simp: eq)
  qed
qed

lemma duplicate_loop_stored:
  "duplicate_loop self original attr = Inr self' \<Longrightarrow> distinct attr \<Longrightarrow> atr \<in> set attr \<Longrightarrow>
     \<exists>var. getattr original atr = Inr var \<and>
       (case duplicate var of
          None \<Rightarrow> map_of (slots self') (CHR ''_'' # atr) = map_of (slots self) (CHR ''_'' # atr)
        | Some dup \<Rightarrow> \<exists>new. dup (host self) = Inr new
                        \<and> map_of (slots self') (CHR ''_'' # atr) = Some new)"
proof (induction attr arbitrary: self)
  case Nil
  then show ?case by simp
next
  case (Cons a attr)
  from Cons.prems(1) obtain var where var: "getattr original a = Inr var"
    by (auto split: sum.splits)
  from Cons.prems(2) have fresh: "CHR ''_'' # a \<notin> (\<lambda>a. CHR ''_'' # a) ` set attr"
    by auto
  show ?case
  proof (cases "duplicate var")
    case None
    with Cons.prems(1) var have rest: "duplicate_loop self original attr = Inr self'" by simp
    show ?thesis
    proof (cases "atr = a")
      case True
      from fresh duplicate_loop_frame[OF rest] have
        "map_of (slots self') (CHR ''_'' # a) = map_of (slots self) (CHR ''_'' # a)" by blast
      with True var None show ?thesis by simp
    next
      case False
      with Cons.prems have "atr \<in> set attr" "distinct attr" by auto
      from Cons.IH[OF rest this(2) this(1)] show ?thesis .
    qed
  next
    case (Some dup)
    with Cons.prems(1) var obtain new self1 where
      new: "dup (host self) = Inr new" and
      s1: "setattr self (CHR ''_'' # a) new = Inr self1" and
      rest: "duplicate_loop self1 original attr = Inr self'"
      by (auto split: sum.splits)
    from setattr_Inr[OF s1]
    have eq: "self1 = self\<lparr>slots := (CHR ''_'' # a, new) # slots self\<rparr>" .
    show ?thesis
    proof (cases "atr = a")
      case True
      from fresh duplicate_loop_frame[OF rest] have
        "map_of (slots self') (CHR ''_'' # a) = map_of (slots self1) (CHR ''_'' # a)" by blast
      with True var Some new eq show ?thesis by simp
    next
      case False
      with Cons.prems have "atr \<in> set attr" "distinct attr" by auto
      from Cons.IH[OF rest this(2) this(1)] False eq show ?thesis
        by (auto split: option.splits)
    qed
  qed
qed

text \<open>
  Claim C1, as the code has it. When \<open>_duplicate_extension_attr\<close> returns, then for every
  enumerated name \<open>atr\<close> of \<open>self\<close> the value was read from the original properties
  object; if that value has \<open>duplicate\<close>, it was called with the host of \<open>self\<close> and its
  result is the data attribute \<open>'_' + atr\<close> of \<open>self\<close> (not the attribute \<open>atr\<close>); if it
  has not, the attribute \<open>'_' + atr\<close> of \<open>self\<close> is as it was before the call.
\<close>

theorem duplicate_extension_attr_stores_copies:
  assumes "duplicate_extension_attr self original = Inr self'"
    and "atr \<in> set (extension_attributes self)"
  shows "\<exists>var. getattr original atr = Inr var \<and>
       (case duplicate var of
          None \<Rightarrow> map_of (slots self') (CHR ''_'' # atr) = map_of (slots self) (CHR ''_'' # atr)
        | Some dup \<Rightarrow> \<exists>new. dup (host self) = Inr new
                        \<and> map_of (slots self') (CHR ''_'' # atr) = Some new)"
  using assms duplicate_loop_stored[OF _ distinct_extension_attributes]
  unfolding duplicate_extension_attr_def by blast

lemmas model_defs =
  getattr_def setattr_def location_def mutated_def reraise_def opaque_def quote_def
  no_attribute_def class_object_def object_members_def base_members_def

lemmas example_defs =
  room_original_def room_copy_def plain_original_def plain_copy_def
  two_extensions_def broken_as_energy_def broken_as_radiance_def tagging_def
  energy_value_def energy_duplicate_def energy_add_prefix_def energy_to_dict_def
  energy_loaded_def energy_from_dict_def radiance_value_def broken_value_def
  tagging_value_def energy_default_def room_fresh_def

lemma extension_attributes_room_copy:
  "extension_attributes room_copy = [''add_prefix'', ''energy'', ''reset_to_default'']"
  by code_simp

lemma extension_attributes_plain_copy:
  "extension_attributes plain_copy = [''add_prefix'', ''energy'', ''reset_to_default'']"
  by code_simp

theorem duplicate_extension_attr_stores_copies_witness:
  "duplicate_extension_attr room_copy room_original =
     Inr (room_copy\<lparr>slots :=
            (''_energy'', opaque ''energy properties of room_2'') # slots room_copy\<rparr>)
   \<and> ''energy'' \<in> set (extension_attributes room_copy)
   \<and> getattr room_original ''energy'' = Inr energy_value
   \<and> duplicate energy_value = Some energy_duplicate
   \<and> energy_duplicate (host room_copy) = Inr (opaque ''energy properties of room_2'')
   \<and> map_of (slots (room_copy\<lparr>slots :=
            (''_energy'', opaque ''energy properties of room_2'') # slots room_copy\<rparr>))
         ''_energy''
       = Some (opaque ''energy properties of room_2'')"
  using duplicate_extension_attr_stores_copies[of room_copy room_original
      "room_copy\<lparr>slots :=
         (''_energy'', opaque ''energy properties of room_2'') # slots room_copy\<rparr>"
      "''energy''"]
  unfolding duplicate_extension_attr_def extension_attributes_room_copy
  by (simp add: model_defs example_defs)

text \<open>
  Claim C1 as it is written says that the copy is stored on \<open>self\<close> under the same
  extension name. With \<open>energy\<close> attached as a plain data attribute, the call returns,
  the original's value has \<open>duplicate\<close> and was duplicated for the new host, and
  \<open>getattr(self, 'energy')\<close> still is the value \<open>self\<close> had before, not the copy.
\<close>

theorem duplicate_extension_attr_public_name_counterexample:
  "duplicate_extension_attr plain_copy plain_original =
     Inr (plain_copy\<lparr>slots :=
            (''_energy'', opaque ''energy properties of room_2'') # slots plain_copy\<rparr>)
   \<and> ''energy'' \<in> set (extension_attributes plain_copy)
   \<and> getattr plain_original ''energy'' = Inr energy_value
   \<and> duplicate energy_value = Some energy_duplicate
   \<and> energy_duplicate (host plain_copy) = Inr (opaque ''energy properties of room_2'')
   \<and> getattr (plain_copy\<lparr>slots :=
            (''_energy'', opaque ''energy properties of room_2'') # slots plain_copy\<rparr>)
         ''energy''
       = Inr (opaque ''stale'')
   \<and> opaque ''stale'' \<noteq> opaque ''energy properties of room_2''"
  unfolding duplicate_extension_attr_def extension_attributes_plain_copy
  by (simp add: model_defs example_defs)

section \<open>Serialization\<close>

lemma to_dict_loop_append:
  "to_dict_loop self base arg (xs @ ys) =
     (case to_dict_loop self base arg xs of
        Inl e \<Rightarrow> Inl e
      | Inr b \<Rightarrow> to_dict_loop self b arg ys)"
  by (induction xs arbitrary: base) (auto split: sum.splits option.splits)

lemma to_dict_loop_step:
  "emits self arg atr d \<Longrightarrow>
     to_dict_loop self base arg (atr # attr) = to_dict_loop self (base ++ d) arg attr"
  by (auto simp: emits_def)

lemma to_dict_loop_dom_mono:
  "to_dict_loop self base arg attr = Inr res \<Longrightarrow> dom base \<subseteq> dom res"
proof (induction attr arbitrary: base)
  case Nil
  then show ?case by simp
next
  case (Cons atr attr)
  then show ?case
    by (fastforce split: sum.splits option.splits)
qed

text \<open>When the loop returns, every selected value that has \<open>to_dict\<close> was serialized.\<close>

lemma to_dict_loop_invoked:
  "to_dict_loop self base arg attr = Inr res \<Longrightarrow> atr \<in> set attr \<Longrightarrow>
   getattr self atr = Inr var \<Longrightarrow> to_dict var = Some td \<Longrightarrow>
     \<exists>d. td arg = Inr d \<and> dom d \<subseteq> dom res"
proof (induction attr arbitrary: base)
  case Nil
  then show ?case by simp
next
  case (Cons a attr)
  show ?case
  proof (cases "atr = a")
    case True
    with Cons.prems obtain d where d: "td arg = Inr d"
      and rest: "to_dict_loop self (base ++ d) arg attr = Inr res"
      by (auto split: sum.splits)
    from to_dict_loop_dom_mono[OF rest] have "dom d \<subseteq> dom res" by auto
    with d show ?thesis by blast
  next
    case False
    with Cons.prems(2) have mem: "atr \<in> set attr" by simp
    from Cons.prems(1) obtain b where "to_dict_loop self b arg attr = Inr res"
      by (auto split: sum.splits option.splits)
    from Cons.IH[OF this mem Cons.prems(3,4)] show ?thesis .
  qed
qed

text \<open>A key that no selected extension emits keeps the value it has in the base map.\<close>

lemma to_dict_loop_untouched:
  "to_dict_loop self base arg attr = Inr res \<Longrightarrow>
   silent self arg attr k \<Longrightarrow> res k = base k"
proof (induction attr arbitrary: base)
  case Nil
  then show ?case by simp
next
  case (Cons a attr)
  from Cons.prems(1) obtain var where var: "getattr self a = Inr var"
    by (auto split: sum.splits)
  from Cons.prems(2) have silent: "silent self arg attr k"
    by (simp add: silent_def)
  show ?case
  proof (cases "to_dict var")
    case None
    with Cons.prems(1) var have rest: "to_dict_loop self base arg attr = Inr res" by simp
    from Cons.IH[OF rest silent] show ?thesis .
  next
    case (Some td)
    with Cons.prems(1) var obtain d where d: "td arg = Inr d"
      and rest: "to_dict_loop self (base ++ d) arg attr = Inr res"
      by (auto split: sum.splits)
    from var Some d have "emits self arg a d" by (auto simp: emits_def)
    with Cons.prems(2) have "d k = None" by (simp add: silent_def)
    moreover from Cons.IH[OF rest silent] have "res k = (base ++ d) k" .
    ultimately show ?thesis by (simp add: map_add_def)
  qed
qed

text \<open>The last selected extension that emits a key decides its value.\<close>

lemma to_dict_loop_last_writer:
  assumes "to_dict_loop self base arg (pre @ atr # post) = Inr res"
    and "emits self arg atr d" and "d k = Some x"
    and "silent self arg post k"
  shows "res k = Some x"
proof -
  from assms(1) obtain b where b: "to_dict_loop self b arg (atr # post) = Inr res"
    by (auto simp: to_dict_loop_append split: sum.splits)
  have rest: "to_dict_loop self (b ++ d) arg post = Inr res"
    unfolding to_dict_loop_step[OF assms(2), symmetric] by (rule b)
  from to_dict_loop_untouched[OF rest assms(4)] have "res k = (b ++ d) k" .
  with assms(3) show ?thesis by simp
qed

text \<open>A selected value whose \<open>to_dict\<close> raises makes the loop raise.\<close>

lemma to_dict_loop_fails:
  "atr \<in> set attr \<Longrightarrow> getattr self atr = Inr var \<Longrightarrow> to_dict var = Some td \<Longrightarrow>
   td arg = Inl e \<Longrightarrow> \<exists>e'. to_dict_loop self base arg attr = Inl e'"
proof (induction attr arbitrary: base)
  case Nil
  then show ?case by simp
next
  case (Cons a attr)
  show ?case
  proof (cases "atr = a")
    case True
    with Cons.prems show ?thesis by simp
  next
    case False
    with Cons.prems(1) have "atr \<in> set attr" by simp
    from Cons.IH[OF this Cons.prems(2-4)] show ?thesis
      by (auto split: sum.splits option.splits)
  qed
qed

lemma to_dict_loop_passes:
  "\<forall>m \<in> set attr. \<exists>v. getattr self m = Inr v \<and>
       (case to_dict v of None \<Rightarrow> True | Some td \<Rightarrow> \<exists>d. td arg = Inr d) \<Longrightarrow>
   \<exists>b. to_dict_loop self base arg attr = Inr b"
proof (induction attr arbitrary: base)
  case Nil
  then show ?case by simp
next
  case (Cons a attr)
  from Cons.prems obtain v where v: "getattr self a = Inr v"
    and ok: "case to_dict v of None \<Rightarrow> True | Some td \<Rightarrow> \<exists>d. td arg = Inr d"
    by auto
  from Cons.prems have rest: "\<forall>m \<in> set attr. \<exists>v. getattr self m = Inr v \<and>
       (case to_dict v of None \<Rightarrow> True | Some td \<Rightarrow> \<exists>d. td arg = Inr d)"
    by simp
  show ?case
  proof (cases "to_dict v")
    case None
    with v Cons.IH[OF rest, of base] show ?thesis by simp
  next
    case (Some td)
    with ok obtain d where "td arg = Inr d" by auto
    with v Some Cons.IH[OF rest, of "base ++ d"] show ?thesis by simp
  qed
qed

lemma to_dict_loop_first_failure:
  assumes "getattr self atr = Inr var" and "to_dict var = Some td" and "td arg = Inl e"
    and "\<forall>m \<in> set pre. \<exists>v. getattr self m = Inr v \<and>
           (case to_dict v of None \<Rightarrow> True | Some td' \<Rightarrow> \<exists>d. td' arg = Inr d)"
  shows "to_dict_loop self base arg (pre @ atr # post) =
           Inl (reraise ''Failed to convert '' '' to a dict: '' var e)"
proof -
  from to_dict_loop_passes[OF assms(4)] obtain b
    where "to_dict_loop self base arg pre = Inr b" by blast
  with assms(1-3) show ?thesis by (simp add: to_dict_loop_append)
qed

lemma extension_attributes_two_extensions:
  "extension_attributes (two_extensions Room) =
     [''add_prefix'', ''energy'', ''radiance'', ''reset_to_default'']"
  "extension_attributes (two_extensions Face) =
     [''add_prefix'', ''energy'', ''radiance'', ''reset_to_default'']"
  "extension_attributes (two_extensions Shade) =
     [''add_prefix'', ''energy'', ''radiance'', ''reset_to_default'']"
  "extension_attributes (two_extensions Aperture) =
     [''add_prefix'', ''energy'', ''radiance'', ''reset_to_default'']"
  "extension_attributes (two_extensions Door) =
     [''add_prefix'', ''energy'', ''radiance'', ''reset_to_default'']"
  "model_to_dict_attributes (two_extensions Model) =
     [''ToString'', ''apply_properties_from_dict'', ''energy'', ''radiance'', ''to_dict'']"
  by code_simp+

lemma extension_attributes_tagging:
  "extension_attributes (tagging Room) = [''add_prefix'', ''reset_to_default'', ''tags'']"
  "model_to_dict_attributes (tagging Model) =
     [''ToString'', ''apply_properties_from_dict'', ''tags'', ''to_dict'']"
  by code_simp+

lemma extension_attributes_broken:
  "extension_attributes broken_as_energy = [''add_prefix'', ''energy'', ''reset_to_default'']"
  "extension_attributes broken_as_radiance = [''add_prefix'', ''radiance'', ''reset_to_default'']"
  by code_simp+

text \<open>
  Claim C3. \<open>_add_extension_attr_to_dict\<close> with \<open>include=[]\<close> returns the base map as it
  is. With \<open>include=[x]\<close>, where \<open>x\<close> is attached and its value serializes to the map
  \<open>d\<close>, it returns the base map updated with \<open>d\<close> and nothing else. With
  \<open>include=None\<close>, when it returns, every enumerated extension whose value has \<open>to_dict\<close>
  was serialized and its keys are in the result, and a key that none of them emits has
  the value it had in the base map.
\<close>

theorem allow_list_filtering:
  "add_extension_attr_to_dict self base abridged (Some []) = Inr base
   \<and> (emits self (Some abridged) x d \<longrightarrow>
        add_extension_attr_to_dict self base abridged (Some [x]) = Inr (base ++ d))
   \<and> (add_extension_attr_to_dict self base abridged None = Inr res \<longrightarrow>
        (\<forall>atr \<in> set (extension_attributes self). \<forall>var td.
            getattr self atr = Inr var \<longrightarrow> to_dict var = Some td \<longrightarrow>
              (\<exists>d'. td (Some abridged) = Inr d' \<and> dom d' \<subseteq> dom res))
        \<and> (\<forall>k. silent self (Some abridged) (extension_attributes self) k
                \<longrightarrow> res k = base k))"
proof (intro conjI impI)
  show "add_extension_attr_to_dict self base abridged (Some []) = Inr base"
    by (simp add: add_extension_attr_to_dict_def selected_def)
next
  assume "emits self (Some abridged) x d"
  then show "add_extension_attr_to_dict self base abridged (Some [x]) = Inr (base ++ d)"
    by (auto simp: add_extension_attr_to_dict_def selected_def emits_def)
next
  assume "add_extension_attr_to_dict self base abridged None = Inr res"
  then have loop:
    "to_dict_loop self base (Some abridged) (extension_attributes self) = Inr res"
    by (simp add: add_extension_attr_to_dict_def selected_def)
  show "\<forall>atr \<in> set (extension_attributes self). \<forall>var td.
            getattr self atr = Inr var \<longrightarrow> to_dict var = Some td \<longrightarrow>
              (\<exists>d'. td (Some abridged) = Inr d' \<and> dom d' \<subseteq> dom res)"
    using to_dict_loop_invoked[OF loop] by blast
  show "\<forall>k. silent self (Some abridged) (extension_attributes self) k \<longrightarrow> res k = base k"
    using to_dict_loop_untouched[OF loop] by blast
qed

theorem allow_list_filtering_witness:
  "add_extension_attr_to_dict (two_extensions Room) [''type'' \<mapsto> JStr ''RoomProperties'']
       False (Some [])
     = Inr [''type'' \<mapsto> JStr ''RoomProperties'']
   \<and> emits (two_extensions Room) (Some False) ''energy''
        [''energy'' \<mapsto> JDict [(''type'', JStr ''RoomEnergyProperties'')]]
   \<and> add_extension_attr_to_dict (two_extensions Room) [''type'' \<mapsto> JStr ''RoomProperties'']
       False (Some [''energy''])
     = Inr [''type'' \<mapsto> JStr ''RoomProperties'',
            ''energy'' \<mapsto> JDict [(''type'', JStr ''RoomEnergyProperties'')]]
   \<and> add_extension_attr_to_dict (two_extensions Room) [''type'' \<mapsto> JStr ''RoomProperties'']
       False None
     = Inr [''type'' \<mapsto> JStr ''RoomProperties'',
            ''energy'' \<mapsto> JDict [(''type'', JStr ''RoomEnergyProperties'')],
            ''radiance'' \<mapsto> JDict [(''type'', JStr ''RoomRadianceProperties'')]]
   \<and> silent (two_extensions Room) (Some False)
        (extension_attributes (two_extensions Room)) ''type''"
  using allow_list_filtering[of "two_extensions Room"
      "[''type'' \<mapsto> JStr ''RoomProperties'']" False
      "''energy''" "[''energy'' \<mapsto> JDict [(''type'', JStr ''RoomEnergyProperties'')]]"
      "[''type'' \<mapsto> JStr ''RoomProperties'',
            ''energy'' \<mapsto> JDict [(''type'', JStr ''RoomEnergyProperties'')],
            ''radiance'' \<mapsto> JDict [(''type'', JStr ''RoomRadianceProperties'')]]"]
  unfolding add_extension_attr_to_dict_def selected_def extension_attributes_two_extensions
    emits_def silent_def
  by (simp add: model_defs example_defs)

text \<open>
  Claim C4, as the code has it. When a selected extension's \<open>to_dict\<close> raises,
  \<open>_add_extension_attr_to_dict\<close> raises too: it never returns a map. When the names
  selected before it were read and serialized without failure, what it raises is
  \<open>Exception('Failed to convert {} to a dict: {}'.format(var, e))\<close>, which carries the
  string form of the extension's value and of the cause, not the extension's name; a
  cause outside \<open>Exception\<close> is raised as it is.
\<close>

theorem to_dict_failure_is_raised:
  assumes "getattr self atr = Inr var" and "to_dict var = Some td"
    and "td (Some abridged) = Inl e"
    and "selected self include = pre @ atr # post"
  shows "(\<exists>e'. add_extension_attr_to_dict self base abridged include = Inl e')
     \<and> ((\<forall>m \<in> set pre. \<exists>v. getattr self m = Inr v \<and>
             (case to_dict v of None \<Rightarrow> True | Some td' \<Rightarrow> \<exists>d. td' (Some abridged) = Inr d))
          \<longrightarrow> add_extension_attr_to_dict self base abridged include =
                Inl (if is_Exception e
                     then Exception (''Failed to convert '' @ str_of var @ '' to a dict: ''
                                     @ str_exn e)
                     else e))"
proof (intro conjI impI)
  have "atr \<in> set (selected self include)" using assms(4) by simp
  from to_dict_loop_fails[OF this assms(1-3)]
  show "\<exists>e'. add_extension_attr_to_dict self base abridged include = Inl e'"
    by (simp add: add_extension_attr_to_dict_def)
next
  assume "\<forall>m \<in> set pre. \<exists>v. getattr self m = Inr v \<and>
             (case to_dict v of None \<Rightarrow> True | Some td' \<Rightarrow> \<exists>d. td' (Some abridged) = Inr d)"
  from to_dict_loop_first_failure[OF assms(1-3) this]
  show "add_extension_attr_to_dict self base abridged include =
          Inl (if is_Exception e
               then Exception (''Failed to convert '' @ str_of var @ '' to a dict: ''
                               @ str_exn e)
               else e)"
    by (simp add: add_extension_attr_to_dict_def assms(4) reraise_def)
qed

theorem to_dict_failure_is_raised_witness:
  "getattr broken_as_energy ''energy'' = Inr broken_value
   \<and> to_dict broken_value = Some (\<lambda>abridged. Inl (Exception ''boom''))
   \<and> selected broken_as_energy None = [''add_prefix''] @ ''energy'' # [''reset_to_default'']
   \<and> add_extension_attr_to_dict broken_as_energy Map.empty False None =
        Inl (Exception ''Failed to convert properties of room_1 to a dict: boom'')"
  using to_dict_failure_is_raised[of broken_as_energy "''energy''" broken_value
      "\<lambda>abridged. Inl (Exception ''boom'')" False "Exception ''boom''" None
      "[''add_prefix'']" "[''reset_to_default'']" Map.empty]
  unfolding selected_def extension_attributes_broken
  by (simp add: model_defs example_defs)

text \<open>
  Claim C4 as it is written says that the error identifies the extension's name. The
  same failing value attached as \<open>energy\<close> to one room and as \<open>radiance\<close> to another
  makes both calls raise the same error, and the message holds neither name.
\<close>

theorem to_dict_failure_name_counterexample:
  "selected broken_as_energy None = [''add_prefix'', ''energy'', ''reset_to_default'']
   \<and> selected broken_as_radiance None = [''add_prefix'', ''radiance'', ''reset_to_default'']
   \<and> getattr broken_as_energy ''energy'' = Inr broken_value
   \<and> getattr broken_as_radiance ''radiance'' = Inr broken_value
   \<and> add_extension_attr_to_dict broken_as_energy Map.empty False None =
        Inl (Exception ''Failed to convert properties of room_1 to a dict: boom'')
   \<and> add_extension_attr_to_dict broken_as_radiance Map.empty False None =
        Inl (Exception ''Failed to convert properties of room_1 to a dict: boom'')
   \<and> \<not> sublist ''energy'' ''Failed to convert properties of room_1 to a dict: boom''
   \<and> \<not> sublist ''radiance'' ''Failed to convert properties of room_1 to a dict: boom''"
proof -
  have "\<not> sublist ''energy'' ''Failed to convert properties of room_1 to a dict: boom''"
    by code_simp
  moreover
  have "\<not> sublist ''radiance'' ''Failed to convert properties of room_1 to a dict: boom''"
    by code_simp
  moreover
  have "selected broken_as_energy None = [''add_prefix'', ''energy'', ''reset_to_default'']
   \<and> selected broken_as_radiance None = [''add_prefix'', ''radiance'', ''reset_to_default'']
   \<and> getattr broken_as_energy ''energy'' = Inr broken_value
   \<and> getattr broken_as_radiance ''radiance'' = Inr broken_value
   \<and> add_extension_attr_to_dict broken_as_energy Map.empty False None =
        Inl (Exception ''Failed to convert properties of room_1 to a dict: boom'')
   \<and> add_extension_attr_to_dict broken_as_radiance Map.empty False None =
        Inl (Exception ''Failed to convert properties of room_1 to a dict: boom'')"
    unfolding add_extension_attr_to_dict_def selected_def extension_attributes_broken
    by (simp add: model_defs example_defs)
  ultimately show ?thesis by blast
qed

lemma tagged_base:
  assumes "r = add_extension_attr_to_dict self
             (if \<not> abridged then [''type'' \<mapsto> JStr a] else [''type'' \<mapsto> JStr b])
             abridged include"
    and "silent self (Some abridged) (selected self include) ''type''"
  shows "case r of Inl e \<Rightarrow> True
         | Inr res \<Rightarrow> res ''type'' = Some (JStr (if abridged then b else a))"
proof (cases r)
  case (Inl e)
  then show ?thesis by simp
next
  case (Inr res)
  with assms(1) have "to_dict_loop self
      (if \<not> abridged then [''type'' \<mapsto> JStr a] else [''type'' \<mapsto> JStr b])
      (Some abridged) (selected self include) = Inr res"
    by (simp add: add_extension_attr_to_dict_def)
  from to_dict_loop_untouched[OF this assms(2)] Inr show ?thesis by simp
qed

text \<open>
  Claim C7, as the code has it. Each of the five \<open>to_dict\<close> that take \<open>abridged\<close>
  starts from a map whose \<open>type\<close> is the class name, with \<open>Abridged\<close> appended when
  \<open>abridged\<close> is true, and the map it returns has that \<open>type\<close> whenever no serialized
  extension emits a \<open>type\<close> key of its own. \<open>ModelProperties.to_dict\<close> has no \<open>abridged\<close>
  parameter, starts from \<open>type = ModelProperties\<close> under the same proviso, and when it
  returns, every selected value with \<open>to_dict\<close> was serialized by a call without
  argument.
\<close>

theorem to_dict_type_tags:
  "(silent room (Some abridged) (selected room include) ''type'' \<longrightarrow>
      (case RoomProperties_to_dict room abridged include of
         Inl e \<Rightarrow> True
       | Inr res \<Rightarrow> res ''type'' =
           Some (JStr (if abridged then ''RoomPropertiesAbridged'' else ''RoomProperties''))))
   \<and> (silent face (Some abridged) (selected face include) ''type'' \<longrightarrow>
      (case FaceProperties_to_dict face abridged include of
         Inl e \<Rightarrow> True
       | Inr res \<Rightarrow> res ''type'' =
           Some (JStr (if abridged then ''FacePropertiesAbridged'' else ''FaceProperties''))))
   \<and> (silent shade (Some abridged) (selected shade include) ''type'' \<longrightarrow>
      (case ShadeProperties_to_dict shade abridged include of
         Inl e \<Rightarrow> True
       | Inr res \<Rightarrow> res ''type'' =
           Some (JStr (if abridged then ''ShadePropertiesAbridged'' else ''ShadeProperties''))))
   \<and> (silent aperture (Some abridged) (selected aperture include) ''type'' \<longrightarrow>
      (case ApertureProperties_to_dict aperture abridged include of
         Inl e \<Rightarrow> True
       | Inr res \<Rightarrow> res ''type'' =
           Some (JStr (if abridged then ''AperturePropertiesAbridged''
                       else ''ApertureProperties''))))
   \<and> (silent door (Some abridged) (selected door include) ''type'' \<longrightarrow>
      (case DoorProperties_to_dict door abridged include of
         Inl e \<Rightarrow> True
       | Inr res \<Rightarrow> res ''type'' =
           Some (JStr (if abridged then ''DoorPropertiesAbridged'' else ''DoorProperties''))))
   \<and> (silent model None (model_selected model include) ''type'' \<longrightarrow>
      (case ModelProperties_to_dict model include of
         Inl e \<Rightarrow> True
       | Inr res \<Rightarrow> res ''type'' = Some (JStr ''ModelProperties'')))
   \<and> (ModelProperties_to_dict model include = Inr mres \<and>
       atr \<in> set (model_selected model include) \<and>
       getattr model atr = Inr var \<and> to_dict var = Some td \<longrightarrow>
         (\<exists>d. td None = Inr d \<and> dom d \<subseteq> dom mres))"
proof (intro conjI impI)
  assume "silent room (Some abridged) (selected room include) ''type''"
  then show "case RoomProperties_to_dict room abridged include of
         Inl e \<Rightarrow> True
       | Inr res \<Rightarrow> res ''type'' =
           Some (JStr (if abridged then ''RoomPropertiesAbridged'' else ''RoomProperties''))"
    by (rule tagged_base[OF RoomProperties_to_dict_def])
next
  assume "silent face (Some abridged) (selected face include) ''type''"
  then show "case FaceProperties_to_dict face abridged include of
         Inl e \<Rightarrow> True
       | Inr res \<Rightarrow> res ''type'' =
           Some (JStr (if abridged then ''FacePropertiesAbridged'' else ''FaceProperties''))"
    by (rule tagged_base[OF FaceProperties_to_dict_def])
next
  assume "silent shade (Some abridged) (selected shade include) ''type''"
  then show "case ShadeProperties_to_dict shade abridged include of
         Inl e \<Rightarrow> True
       | Inr res \<Rightarrow> res ''type'' =
           Some (JStr (if abridged then ''ShadePropertiesAbridged'' else ''ShadeProperties''))"
    by (rule tagged_base[OF ShadeProperties_to_dict_def])
next
  assume "silent aperture (Some abridged) (selected aperture include) ''type''"
  then show "case ApertureProperties_to_dict aperture abridged include of
         Inl e \<Rightarrow> True
       | Inr res \<Rightarrow> res ''type'' =
           Some (JStr (if abridged then ''AperturePropertiesAbridged''
                       else ''ApertureProperties''))"
    by (rule tagged_base[OF ApertureProperties_to_dict_def])
next
  assume "silent door (Some abridged) (selected door include) ''type''"
  then show "case DoorProperties_to_dict door abridged include of
         Inl e \<Rightarrow> True
       | Inr res \<Rightarrow> res ''type'' =
           Some (JStr (if abridged then ''DoorPropertiesAbridged'' else ''DoorProperties''))"
    by (rule tagged_base[OF DoorProperties_to_dict_def])
next
  assume quiet: "silent model None (model_selected model include) ''type''"
  show "case ModelProperties_to_dict model include of
         Inl e \<Rightarrow> True
       | Inr res \<Rightarrow> res ''type'' = Some (JStr ''ModelProperties'')"
  proof (cases "ModelProperties_to_dict model include")
    case (Inl e)
    then show ?thesis by simp
  next
    case (Inr res)
    from to_dict_loop_untouched[OF Inr[unfolded ModelProperties_to_dict_def] quiet] Inr
    show ?thesis by simp
  qed
next
  assume "ModelProperties_to_dict model include = Inr mres \<and>
       atr \<in> set (model_selected model include) \<and>
       getattr model atr = Inr var \<and> to_dict var = Some td"
  then have loop: "to_dict_loop model [''type'' \<mapsto> JStr ''ModelProperties''] None
                     (model_selected model include) = Inr mres"
    and rest: "atr \<in> set (model_selected model include)"
      "getattr model atr = Inr var" "to_dict var = Some td"
    by (simp_all add: ModelProperties_to_dict_def)
  from to_dict_loop_invoked[OF loop rest]
  show "\<exists>d. td None = Inr d \<and> dom d \<subseteq> dom mres" .
qed

theorem to_dict_type_tags_witness:
  "silent (two_extensions Room) (Some True) (selected (two_extensions Room) None) ''type''
   \<and> RoomProperties_to_dict (two_extensions Room) True None =
       Inr [''type'' \<mapsto> JStr ''RoomPropertiesAbridged'',
            ''energy'' \<mapsto> JDict [(''type'', JStr ''RoomEnergyPropertiesAbridged'')],
            ''radiance'' \<mapsto> JDict [(''type'', JStr ''RoomRadianceProperties'')]]
   \<and> (case FaceProperties_to_dict (two_extensions Face) True None of
         Inl e \<Rightarrow> False | Inr res \<Rightarrow> res ''type'' = Some (JStr ''FacePropertiesAbridged''))
   \<and> (case ShadeProperties_to_dict (two_extensions Shade) True None of
         Inl e \<Rightarrow> False | Inr res \<Rightarrow> res ''type'' = Some (JStr ''ShadePropertiesAbridged''))
   \<and> (case ApertureProperties_to_dict (two_extensions Aperture) True None of
         Inl e \<Rightarrow> False
       | Inr res \<Rightarrow> res ''type'' = Some (JStr ''AperturePropertiesAbridged''))
   \<and> (case DoorProperties_to_dict (two_extensions Door) True None of
         Inl e \<Rightarrow> False | Inr res \<Rightarrow> res ''type'' = Some (JStr ''DoorPropertiesAbridged''))
   \<and> silent (two_extensions Model) None (model_selected (two_extensions Model) None) ''type''
   \<and> ModelProperties_to_dict (two_extensions Model) None =
       Inr [''type'' \<mapsto> JStr ''ModelProperties'',
            ''energy'' \<mapsto> JDict [(''type'', JStr ''RoomEnergyProperties'')],
            ''radiance'' \<mapsto> JDict [(''type'', JStr ''RoomRadianceProperties'')]]
   \<and> ''energy'' \<in> set (model_selected (two_extensions Model) None)
   \<and> getattr (two_extensions Model) ''energy'' = Inr energy_value
   \<and> to_dict energy_value = Some energy_to_dict
   \<and> energy_to_dict None =
       Inr [''energy'' \<mapsto> JDict [(''type'', JStr ''RoomEnergyProperties'')]]"
  using to_dict_type_tags[of "two_extensions Room" True None "two_extensions Face"
      "two_extensions Shade" "two_extensions Aperture" "two_extensions Door"
      "two_extensions Model"
      "[''type'' \<mapsto> JStr ''ModelProperties'',
        ''energy'' \<mapsto> JDict [(''type'', JStr ''RoomEnergyProperties'')],
        ''radiance'' \<mapsto> JDict [(''type'', JStr ''RoomRadianceProperties'')]]"
      "''energy''" energy_value energy_to_dict]
  unfolding RoomProperties_to_dict_def FaceProperties_to_dict_def ShadeProperties_to_dict_def
    ApertureProperties_to_dict_def DoorProperties_to_dict_def ModelProperties_to_dict_def
    add_extension_attr_to_dict_def selected_def model_selected_def
    extension_attributes_two_extensions emits_def silent_def
  by (simp add: model_defs example_defs)

text \<open>
  Claim C7 as it is written says that the returned map's \<open>type\<close> is the class name. A
  room whose extension serializes to a map with a \<open>type\<close> key returns that key's value.
\<close>

theorem to_dict_type_tag_counterexample:
  "RoomProperties_to_dict (tagging Room) False None = Inr [''type'' \<mapsto> JStr ''Custom'']
   \<and> [''type'' \<mapsto> JStr ''Custom''] ''type'' \<noteq> Some (JStr ''RoomProperties'')"
  unfolding RoomProperties_to_dict_def add_extension_attr_to_dict_def selected_def
    extension_attributes_tagging
  by (simp add: model_defs example_defs)

text \<open>
  Claim C10. In \<open>_add_extension_attr_to_dict\<close> and in \<open>ModelProperties.to_dict\<close> the
  maps are merged by \<open>base.update\<close> in the order of the selected names, so for every
  key the last selected extension that emits it decides its value in the returned
  map: an earlier extension's value for that key, and the \<open>type\<close> tag of the host,
  are overwritten without check.
\<close>

theorem to_dict_last_writer_wins:
  "(add_extension_attr_to_dict self base abridged include = Inr res \<and>
    selected self include = pre @ atr # post \<and>
    emits self (Some abridged) atr d \<and> d k = Some x \<and>
    silent self (Some abridged) post k \<longrightarrow> res k = Some x)
   \<and> (ModelProperties_to_dict model minclude = Inr mres \<and>
       model_selected model minclude = mpre @ matr # mpost \<and>
       emits model None matr md \<and> md mk = Some mx \<and>
       silent model None mpost mk \<longrightarrow> mres mk = Some mx)"
proof (intro conjI impI)
  assume "add_extension_attr_to_dict self base abridged include = Inr res \<and>
    selected self include = pre @ atr # post \<and>
    emits self (Some abridged) atr d \<and> d k = Some x \<and>
    silent self (Some abridged) post k"
  then have loop: "to_dict_loop self base (Some abridged) (selected self include) = Inr res"
    and sel: "selected self include = pre @ atr # post"
    and rest: "emits self (Some abridged) atr d" "d k = Some x"
      "silent self (Some abridged) post k"
    by (auto simp: add_extension_attr_to_dict_def)
  from to_dict_loop_last_writer[OF loop[unfolded sel] rest] show "res k = Some x" .
next
  assume "ModelProperties_to_dict model minclude = Inr mres \<and>
       model_selected model minclude = mpre @ matr # mpost \<and>
       emits model None matr md \<and> md mk = Some mx \<and>
       silent model None mpost mk"
  then have loop: "to_dict_loop model [''type'' \<mapsto> JStr ''ModelProperties''] None
                     (model_selected model minclude) = Inr mres"
    and sel: "model_selected model minclude = mpre @ matr # mpost"
    and rest: "emits model None matr md" "md mk = Some mx" "silent model None mpost mk"
    by (auto simp: ModelProperties_to_dict_def)
  from to_dict_loop_last_writer[OF loop[unfolded sel] rest] show "mres mk = Some mx" .
qed

theorem to_dict_last_writer_wins_witness:
  "add_extension_attr_to_dict (tagging Room) [''type'' \<mapsto> JStr ''RoomProperties''] False None
     = Inr [''type'' \<mapsto> JStr ''Custom'']
   \<and> selected (tagging Room) None = [''add_prefix'', ''reset_to_default''] @ ''tags'' # []
   \<and> emits (tagging Room) (Some False) ''tags'' [''type'' \<mapsto> JStr ''Custom'']
   \<and> silent (tagging Room) (Some False) [] ''type''
   \<and> ModelProperties_to_dict (tagging Model) None = Inr [''type'' \<mapsto> JStr ''Custom'']
   \<and> model_selected (tagging Model) None =
        [''ToString'', ''apply_properties_from_dict''] @ ''tags'' # [''to_dict'']
   \<and> emits (tagging Model) None ''tags'' [''type'' \<mapsto> JStr ''Custom'']
   \<and> silent (tagging Model) None [''to_dict''] ''type''
   \<and> [''type'' \<mapsto> JStr ''Custom''] ''type'' = Some (JStr ''Custom'')"
  using to_dict_last_writer_wins[of "tagging Room" "[''type'' \<mapsto> JStr ''RoomProperties'']"
      False None "[''type'' \<mapsto> JStr ''Custom'']" "[''add_prefix'', ''reset_to_default'']"
      "''tags''" "[]" "[''type'' \<mapsto> JStr ''Custom'']" "''type''" "JStr ''Custom''"
      "tagging Model" None "[''type'' \<mapsto> JStr ''Custom'']"
      "[''ToString'', ''apply_properties_from_dict'']" "''tags''" "[''to_dict'']"
      "[''type'' \<mapsto> JStr ''Custom'']" "''type''" "JStr ''Custom''"]
  unfolding ModelProperties_to_dict_def add_extension_attr_to_dict_def selected_def
    model_selected_def extension_attributes_tagging emits_def silent_def
  by (simp add: model_defs example_defs)

section \<open>Renaming with a prefix\<close>

text \<open>\<open>getattr(self, name)\<close> reads the class, the accessors and one slot.\<close>

lemma getattr_cong:
  assumes "cls s' = cls s" and "host_object s' = host_object s"
    and "accessors s' = accessors s"
    and "map_of (slots s') (location s name) = map_of (slots s) (location s name)"
  shows "getattr s' name = getattr s name"
proof (cases "map_of (accessors s) name")
  case None
  with assms(4) have "map_of (slots s') name = map_of (slots s) name"
    by (simp add: location_def)
  then show ?thesis
    unfolding getattr_def no_attribute_def assms(1-3) None by (simp only: option.case)
next
  case (Some slot)
  with assms(4) have "map_of (slots s') slot = map_of (slots s) slot"
    by (simp add: location_def)
  then show ?thesis
    unfolding getattr_def no_attribute_def assms(1-3) Some by (simp only: option.case)
qed

lemma getattr_slot:
  assumes "getattr self name = Inr v" and "map_of (slots self) (location self name) = Some w"
  shows "w = v"
  using assms
  by (cases "map_of (accessors self) name") (simp_all add: getattr_def location_def)

text \<open>
  A public name other than \<open>host\<close> whose value has \<open>add_prefix\<close> is a data attribute
  or a property: the members the module defines have no such capability.
\<close>

lemma capable_value_in_slot:
  assumes "getattr self atr = Inr var" and "add_prefix var = Some f"
    and "\<not> startswith_underscore atr" and "atr \<noteq> ''host''"
  shows "map_of (slots self) (location self atr) = Some var"
proof (cases "map_of (accessors self) atr")
  case (Some slot)
  with assms(1) show ?thesis
    by (auto simp: getattr_def location_def split: option.splits)
next
  case None
  show ?thesis
  proof (cases "map_of (slots self) atr")
    case (Some v)
    with None assms(1) show ?thesis by (simp add: getattr_def location_def)
  next
    case none: None
    from assms(3) have "atr \<noteq> ''_host''" "atr \<noteq> ''__class__''" by auto
    with None none assms(1,4) have "var = opaque atr"
      by (auto simp: getattr_def split: if_splits)
    with assms(2) show ?thesis by (simp add: opaque_def)
  qed
qed

text \<open>
  The loop leaves the class, the host and the accessors alone, and it leaves alone every
  slot that is unset or holds a value without \<open>add_prefix\<close>.
\<close>

lemma add_prefix_loop_frame:
  "add_prefix_loop self pfx attr = Inr self' \<Longrightarrow>
   \<forall>atr \<in> set attr. \<not> startswith_underscore atr \<and> atr \<noteq> ''host'' \<Longrightarrow>
     cls self' = cls self \<and> host self' = host self \<and> host_object self' = host_object self
     \<and> accessors self' = accessors self
     \<and> (\<forall>k. (\<forall>v. map_of (slots self) k = Some v \<longrightarrow> add_prefix v = None)
            \<longrightarrow> map_of (slots self') k = map_of (slots self) k)"
proof (induction attr arbitrary: self)
  case Nil
  then show ?case by simp
next
  case (Cons a attr)
  from Cons.prems(1) obtain var where var: "getattr self a = Inr var"
    by (auto split: sum.splits)
  from Cons.prems(2) have public: "\<not> startswith_underscore a" "a \<noteq> ''host''"
    and rest_public: "\<forall>atr \<in> set attr. \<not> startswith_underscore atr \<and> atr \<noteq> ''host''"
    by simp_all
  show ?case
  proof (cases "add_prefix var")
    case None
    with Cons.prems(1) var have "add_prefix_loop self pfx attr = Inr self'" by simp
    from Cons.IH[OF this rest_public] show ?thesis .
  next
    case (Some f)
    with Cons.prems(1) var obtain var' where
      rest: "add_prefix_loop (mutated self a var') pfx attr = Inr self'"
      by (auto split: sum.splits)
    from capable_value_in_slot[OF var Some public]
    have held: "map_of (slots self) (location self a) = Some var" .
    have "map_of (slots self') k = map_of (slots self) k"
      if k: "\<forall>v. map_of (slots self) k = Some v \<longrightarrow> add_prefix v = None" for k
    proof -
      from k held Some have "k \<noteq> location self a" by auto
      then have same: "map_of (slots (mutated self a var')) k = map_of (slots self) k"
        by (simp add: mutated_def)
      with k have "\<forall>v. map_of (slots (mutated self a var')) k = Some v \<longrightarrow> add_prefix v = None"
        by simp
      with Cons.IH[OF rest rest_public] same show ?thesis by simp
    qed
    with Cons.IH[OF rest rest_public] show ?thesis by (simp add: mutated_def)
  qed
qed

text \<open>
  Claim C8. When \<open>_add_prefix_extension_attr\<close> returns, every attribute of \<open>self\<close> whose
  value has no \<open>add_prefix\<close> still has the same value, a slot that changed held a
  value with \<open>add_prefix\<close>, and the class, the host and the accessors are unchanged.
\<close>

theorem add_prefix_isolation:
  assumes "add_prefix_extension_attr self pfx = Inr self'"
  shows "(\<forall>name v. getattr self name = Inr v \<and> add_prefix v = None
            \<longrightarrow> getattr self' name = Inr v)
     \<and> (\<forall>k. map_of (slots self') k \<noteq> map_of (slots self) k
            \<longrightarrow> (\<exists>v f. map_of (slots self) k = Some v \<and> add_prefix v = Some f))
     \<and> cls self' = cls self \<and> host self' = host self \<and> accessors self' = accessors self"
proof -
  have public: "\<forall>atr \<in> set (extension_attributes self).
                  \<not> startswith_underscore atr \<and> atr \<noteq> ''host''"
    using extension_attributes_public[of _ self] by (auto simp: do_not_duplicate_def)
  from add_prefix_loop_frame[OF assms[unfolded add_prefix_extension_attr_def] public]
  have same: "cls self' = cls self" "host self' = host self"
      "host_object self' = host_object self" "accessors self' = accessors self"
    and frame: "\<And>k. (\<forall>v. map_of (slots self) k = Some v \<longrightarrow> add_prefix v = None)
               \<Longrightarrow> map_of (slots self') k = map_of (slots self) k"
    by simp_all
  have kept: "getattr self' name = Inr v"
    if g: "getattr self name = Inr v" and none: "add_prefix v = None" for name v
  proof -
    from getattr_slot[OF g] none
    have "\<forall>w. map_of (slots self) (location self name) = Some w \<longrightarrow> add_prefix w = None"
      by blast
    from frame[OF this] same have "getattr self' name = getattr self name"
      by (intro getattr_cong) simp_all
    with g show ?thesis by simp
  qed
  have changed: "\<exists>v f. map_of (slots self) k = Some v \<and> add_prefix v = Some f"
    if "map_of (slots self') k \<noteq> map_of (slots self) k" for k
    using that frame[of k] by (cases "map_of (slots self) k") auto
  from kept changed same show ?thesis by blast
qed

theorem add_prefix_isolation_witness:
  "add_prefix_extension_attr (two_extensions Room) ''A'' =
     Inr ((two_extensions Room)\<lparr>slots :=
            (''_energy'', opaque ''A_energy properties'') # slots (two_extensions Room)\<rparr>)
   \<and> getattr (two_extensions Room) ''radiance'' = Inr radiance_value
   \<and> add_prefix radiance_value = None
   \<and> getattr ((two_extensions Room)\<lparr>slots :=
            (''_energy'', opaque ''A_energy properties'') # slots (two_extensions Room)\<rparr>)
         ''radiance'' = Inr radiance_value
   \<and> getattr ((two_extensions Room)\<lparr>slots :=
            (''_energy'', opaque ''A_energy properties'') # slots (two_extensions Room)\<rparr>)
         ''energy'' = Inr (opaque ''A_energy properties'')
   \<and> add_prefix energy_value = Some energy_add_prefix"
  using add_prefix_isolation[of "two_extensions Room" "''A''"
      "(two_extensions Room)\<lparr>slots :=
         (''_energy'', opaque ''A_energy properties'') # slots (two_extensions Room)\<rparr>"]
  unfolding add_prefix_extension_attr_def extension_attributes_two_extensions
  by (simp add: model_defs example_defs)

section \<open>Loading from a dictionary\<close>

text \<open>
  One pass of the loop of \<open>_load_extension_attr_from_dict\<close>: whatever the pass does, the
  loop goes on from an object that differs from \<open>self\<close> in the slot \<open>'_' + atr\<close> at most.
\<close>

lemma setattr_Inl: "setattr self name v = Inl e \<Longrightarrow> \<not> is_KeyError e"
  by (auto simp: setattr_def split: if_splits)

lemma load_loop_step:
  assumes "load_loop self property_dict (atr # attr) = Inr self'"
  shows "\<exists>self1. load_loop self1 property_dict attr = Inr self'
           \<and> cls self1 = cls self \<and> host self1 = host self
           \<and> host_object self1 = host_object self \<and> accessors self1 = accessors self
           \<and> (\<forall>k. k \<noteq> CHR ''_'' # atr \<longrightarrow> map_of (slots self1) k = map_of (slots self) k)"
proof -
  from assms obtain var where var: "getattr self atr = Inr var"
    by (auto split: sum.splits)
  show ?thesis
  proof (cases "from_dict var")
    case None
    with assms var have "load_loop self property_dict attr = Inr self'" by simp
    then show ?thesis by blast
  next
    case (Some f)
    let ?attempt = "case property_dict atr of
                  None \<Rightarrow> Inl (KeyError atr)
                | Some data \<Rightarrow>
                    (case f data (host self) of
                       Inl e \<Rightarrow> Inl e
                     | Inr new \<Rightarrow> setattr self (CHR ''_'' # atr) new)"
    show ?thesis
    proof (cases ?attempt)
      case (Inl e)
      with assms var Some have "load_loop self property_dict attr = Inr self'"
        by (simp split: if_splits)
      then show ?thesis by blast
    next
      case (Inr self1)
      with assms var Some have rest: "load_loop self1 property_dict attr = Inr self'"
        by simp
      from Inr obtain new where "setattr self (CHR ''_'' # atr) new = Inr self1"
        by (auto split: option.splits sum.splits)
      from setattr_Inr[OF this]
      have "self1 = self\<lparr>slots := (CHR ''_'' # atr, new) # slots self\<rparr>" .
      with rest show ?thesis by auto
    qed
  qed
qed

lemma load_loop_frame:
  "load_loop self property_dict attr = Inr self' \<Longrightarrow>
     cls self' = cls self \<and> host self' = host self \<and> host_object self' = host_object self
     \<and> accessors self' = accessors self
     \<and> (\<forall>k. k \<notin> (\<lambda>a. CHR ''_'' # a) ` set attr
            \<longrightarrow> map_of (slots self') k = map_of (slots self) k)"
proof (induction attr arbitrary: self)
  case Nil
  then show ?case by simp
next
  case (Cons atr attr)
  from load_loop_step[OF Cons.prems] obtain self1 where
    rest: "load_loop self1 property_dict attr = Inr self'"
    and same: "cls self1 = cls self" "host self1 = host self"
      "host_object self1 = host_object self" "accessors self1 = accessors self"
    and slots1: "\<forall>k. k \<noteq> CHR ''_'' # atr \<longrightarrow> map_of (slots self1) k = map_of (slots self) k"
    by blast
  from Cons.IH[OF rest] same slots1 show ?case by auto
qed

text \<open>
  A name whose key is in the dictionary and whose \<open>from_dict\<close> returns gets the new
  value in its slot \<open>'_' + atr\<close>, provided the name does not read its value from the
  slot \<open>'_' + a\<close> of another selected name \<open>a\<close>.
\<close>

lemma load_loop_stored:
  assumes "load_loop self property_dict attr = Inr self'"
    and "distinct attr" and "atr \<in> set attr"
    and "location self atr \<notin> (\<lambda>a. CHR ''_'' # a) ` (set attr - {atr})"
    and "getattr self atr = Inr var" and "from_dict var = Some f"
    and "property_dict atr = Some data" and "f data (host self) = Inr new"
  shows "map_of (slots self') (CHR ''_'' # atr) = Some new"
  using assms
proof (induction attr arbitrary: self)
  case Nil
  then show ?case by simp
next
  case (Cons a attr)
  show ?case
  proof (cases "atr = a")
    case True
    from Cons.prems(1,5-8) True obtain self1 where
      s1: "setattr self (CHR ''_'' # a) new = Inr self1"
      and rest: "load_loop self1 property_dict attr = Inr self'"
      by (auto split: sum.splits if_splits dest: setattr_Inl)
    from setattr_Inr[OF s1]
    have "map_of (slots self1) (CHR ''_'' # a) = Some new" by simp
    moreover from Cons.prems(2) have "CHR ''_'' # a \<notin> (\<lambda>a. CHR ''_'' # a) ` set attr"
      by auto
    ultimately show ?thesis using load_loop_frame[OF rest] True by simp
  next
    case False
    from load_loop_step[OF Cons.prems(1)] obtain self1 where
      rest: "load_loop self1 property_dict attr = Inr self'"
      and same: "cls self1 = cls self" "host self1 = host self"
        "host_object self1 = host_object self" "accessors self1 = accessors self"
      and slots1: "\<forall>k. k \<noteq> CHR ''_'' # a \<longrightarrow> map_of (slots self1) k = map_of (slots self) k"
      by blast
    from Cons.prems(4) False have away: "location self atr \<noteq> CHR ''_'' # a" by auto
    from same have loc: "location self1 atr = location self atr"
      by (simp add: location_def)
    from away slots1 have "map_of (slots self1) (location self atr)
        = map_of (slots self) (location self atr)" by simp
    from getattr_cong[OF same(1,3,4) this] Cons.prems(5)
    have g: "getattr self1 atr = Inr var" by simp
    from Cons.prems(2,3) False have d: "distinct attr" and m: "atr \<in> set attr" by auto
    from Cons.prems(4) loc
    have l: "location self1 atr \<notin> (\<lambda>a. CHR ''_'' # a) ` (set attr - {atr})" by auto
    from Cons.prems(8) same have n: "f data (host self1) = Inr new" by simp
    from Cons.IH[OF rest d m l g Cons.prems(6,7) n] show ?thesis .
  qed
qed

text \<open>
  The three ways a pass of the loop can go when the value has \<open>from_dict\<close>: a missing
  key is skipped, an error that is no \<open>KeyError\<close> is raised to the caller, and a
  \<open>KeyError\<close> raised inside \<open>from_dict\<close> is skipped like a missing key.
\<close>

lemma load_loop_missing_key:
  "getattr self atr = Inr var \<Longrightarrow> property_dict atr = None \<Longrightarrow>
     load_loop self property_dict (atr # attr) = load_loop self property_dict attr"
  by (cases "from_dict var") simp_all

lemma load_loop_error_raised:
  "getattr self atr = Inr var \<Longrightarrow> from_dict var = Some f \<Longrightarrow>
   property_dict atr = Some data \<Longrightarrow> f data (host self) = Inl e \<Longrightarrow> \<not> is_KeyError e \<Longrightarrow>
     load_loop self property_dict (atr # attr) = Inl e"
  by simp

lemma load_loop_key_error_swallowed:
  "getattr self atr = Inr var \<Longrightarrow> from_dict var = Some f \<Longrightarrow>
   property_dict atr = Some data \<Longrightarrow> f data (host self) = Inl (KeyError k) \<Longrightarrow>
     load_loop self property_dict (atr # attr) = load_loop self property_dict attr"
  by simp

lemma extension_attributes_room_original:
  "extension_attributes room_original = [''add_prefix'', ''energy'', ''reset_to_default'']"
  by code_simp

text \<open>
  Claim C2 at a failing input. The key \<open>energy\<close> is present and its sub-map is
  malformed (it lacks \<open>type\<close>), so \<open>from_dict\<close> raises \<open>KeyError\<close>; the call returns
  normally and leaves the object as it was, where the claim says it fails.
\<close>

theorem load_swallows_key_error_evaluation:
  "getattr room_original ''energy'' = Inr energy_value
   \<and> from_dict energy_value = Some energy_from_dict
   \<and> [''energy'' \<mapsto> JDict []] ''energy'' = Some (JDict [])
   \<and> energy_from_dict (JDict []) (host room_original) = Inl (KeyError ''type'')
   \<and> load_extension_attr_from_dict room_original [''energy'' \<mapsto> JDict []]
       = Inr room_original"
  unfolding load_extension_attr_from_dict_def extension_attributes_room_original
  by (simp add: model_defs example_defs)

text \<open>
  Claim C9. When \<open>_duplicate_extension_attr\<close> or \<open>_load_extension_attr_from_dict\<close>
  installs a new value for the name \<open>atr\<close>, the value is in the data attribute
  \<open>'_' + atr\<close> and the data attribute \<open>atr\<close> is untouched; \<open>getattr(self, atr)\<close> gives
  the new value when \<open>atr\<close> is a property reading \<open>'_' + atr\<close>, and gives what it gave
  before when \<open>atr\<close> is no property.
\<close>

theorem installed_under_private_name:
  "(duplicate_extension_attr self original = Inr self' \<and>
    atr \<in> set (extension_attributes self) \<and>
    getattr original atr = Inr var \<and> duplicate var = Some dup \<and>
    dup (host self) = Inr new \<longrightarrow>
      map_of (slots self') (CHR ''_'' # atr) = Some new
      \<and> map_of (slots self') atr = map_of (slots self) atr
      \<and> (map_of (accessors self) atr = Some (CHR ''_'' # atr) \<longrightarrow> getattr self' atr = Inr new)
      \<and> (map_of (accessors self) atr = None \<longrightarrow> getattr self' atr = getattr self atr))
   \<and> (load_extension_attr_from_dict target property_dict = Inr target' \<and>
       name \<in> set (extension_attributes target) \<and>
       (map_of (accessors target) name = Some (CHR ''_'' # name) \<or>
        map_of (accessors target) name = None) \<and>
       getattr target name = Inr tvar \<and> from_dict tvar = Some fd \<and>
       property_dict name = Some data \<and> fd data (host target) = Inr loaded \<longrightarrow>
         map_of (slots target') (CHR ''_'' # name) = Some loaded
         \<and> map_of (slots target') name = map_of (slots target) name
         \<and> (map_of (accessors target) name = Some (CHR ''_'' # name)
              \<longrightarrow> getattr target' name = Inr loaded)
         \<and> (map_of (accessors target) name = None
              \<longrightarrow> getattr target' name = getattr target name))"
proof (intro conjI impI)
  assume a: "duplicate_extension_attr self original = Inr self' \<and>
    atr \<in> set (extension_attributes self) \<and>
    getattr original atr = Inr var \<and> duplicate var = Some dup \<and>
    dup (host self) = Inr new"
  then have loop: "duplicate_loop self original (extension_attributes self) = Inr self'"
    and mem: "atr \<in> set (extension_attributes self)"
    by (simp_all add: duplicate_extension_attr_def)
  from duplicate_loop_stored[OF loop distinct_extension_attributes mem] a
  show stored: "map_of (slots self') (CHR ''_'' # atr) = Some new" by auto
  from extension_attributes_public[OF mem]
  have "atr \<notin> (\<lambda>a. CHR ''_'' # a) ` set (extension_attributes self)" by auto
  with duplicate_loop_frame[OF loop]
  show public: "map_of (slots self') atr = map_of (slots self) atr" by blast
  from duplicate_loop_frame[OF loop]
  have same: "cls self' = cls self" "host_object self' = host_object self"
    "accessors self' = accessors self" by simp_all
  {
    assume "map_of (accessors self) atr = Some (CHR ''_'' # atr)"
    with stored same show "getattr self' atr = Inr new" by (simp add: getattr_def)
  }
  {
    assume "map_of (accessors self) atr = None"
    with public have "map_of (slots self') (location self atr)
        = map_of (slots self) (location self atr)" by (simp add: location_def)
    from getattr_cong[OF same this] show "getattr self' atr = getattr self atr" .
  }
next
  assume a: "load_extension_attr_from_dict target property_dict = Inr target' \<and>
       name \<in> set (extension_attributes target) \<and>
       (map_of (accessors target) name = Some (CHR ''_'' # name) \<or>
        map_of (accessors target) name = None) \<and>
       getattr target name = Inr tvar \<and> from_dict tvar = Some fd \<and>
       property_dict name = Some data \<and> fd data (host target) = Inr loaded"
  then have loop: "load_loop target property_dict (extension_attributes target) = Inr target'"
    and mem: "name \<in> set (extension_attributes target)"
    and acc: "map_of (accessors target) name = Some (CHR ''_'' # name) \<or>
              map_of (accessors target) name = None"
    and rest: "getattr target name = Inr tvar" "from_dict tvar = Some fd"
      "property_dict name = Some data" "fd data (host target) = Inr loaded"
    by (simp_all add: load_extension_attr_from_dict_def)
  from extension_attributes_public[OF mem] have pub: "\<not> startswith_underscore name" by simp
  then have notpriv: "name \<notin> (\<lambda>a. CHR ''_'' # a) ` set (extension_attributes target)"
    by auto
  from acc have "location target name = CHR ''_'' # name \<or> location target name = name"
    by (auto simp: location_def)
  with notpriv have away: "location target name
      \<notin> (\<lambda>a. CHR ''_'' # a) ` (set (extension_attributes target) - {name})"
    by auto
  from load_loop_stored[OF loop distinct_extension_attributes mem away rest]
  show stored: "map_of (slots target') (CHR ''_'' # name) = Some loaded" .
  from notpriv load_loop_frame[OF loop]
  show public: "map_of (slots target') name = map_of (slots target) name" by blast
  from load_loop_frame[OF loop]
  have same: "cls target' = cls target" "host_object target' = host_object target"
    "accessors target' = accessors target" by simp_all
  {
    assume "map_of (accessors target) name = Some (CHR ''_'' # name)"
    with stored same show "getattr target' name = Inr loaded" by (simp add: getattr_def)
  }
  {
    assume "map_of (accessors target) name = None"
    with public have "map_of (slots target') (location target name)
        = map_of (slots target) (location target name)" by (simp add: location_def)
    from getattr_cong[OF same this] show "getattr target' name = getattr target name" .
  }
qed

theorem installed_under_private_name_witness:
  "duplicate_extension_attr room_copy room_original =
     Inr (room_copy\<lparr>slots :=
            (''_energy'', opaque ''energy properties of room_2'') # slots room_copy\<rparr>)
   \<and> ''energy'' \<in> set (extension_attributes room_copy)
   \<and> getattr room_original ''energy'' = Inr energy_value
   \<and> duplicate energy_value = Some energy_duplicate
   \<and> energy_duplicate (host room_copy) = Inr (opaque ''energy properties of room_2'')
   \<and> map_of (accessors room_copy) ''energy'' = Some ''_energy''
   \<and> getattr (room_copy\<lparr>slots :=
            (''_energy'', opaque ''energy properties of room_2'') # slots room_copy\<rparr>)
         ''energy'' = Inr (opaque ''energy properties of room_2'')
   \<and> load_extension_attr_from_dict room_original
         [''energy'' \<mapsto> JDict [(''type'', JStr ''RoomEnergyProperties'')]] =
       Inr (room_original\<lparr>slots :=
              (''_energy'', energy_loaded (JDict [(''type'', JStr ''RoomEnergyProperties'')]))
              # slots room_original\<rparr>)
   \<and> ''energy'' \<in> set (extension_attributes room_original)
   \<and> map_of (accessors room_original) ''energy'' = Some ''_energy''
   \<and> from_dict energy_value = Some energy_from_dict
   \<and> energy_from_dict (JDict [(''type'', JStr ''RoomEnergyProperties'')]) (host room_original)
       = Inr (energy_loaded (JDict [(''type'', JStr ''RoomEnergyProperties'')]))
   \<and> getattr (room_original\<lparr>slots :=
              (''_energy'', energy_loaded (JDict [(''type'', JStr ''RoomEnergyProperties'')]))
              # slots room_original\<rparr>) ''energy''
       = Inr (energy_loaded (JDict [(''type'', JStr ''RoomEnergyProperties'')]))"
  using installed_under_private_name[of room_copy room_original
      "room_copy\<lparr>slots :=
         (''_energy'', opaque ''energy properties of room_2'') # slots room_copy\<rparr>"
      "''energy''" energy_value energy_duplicate "opaque ''energy properties of room_2''"
      room_original "[''energy'' \<mapsto> JDict [(''type'', JStr ''RoomEnergyProperties'')]]"
      "room_original\<lparr>slots :=
         (''_energy'', energy_loaded (JDict [(''type'', JStr ''RoomEnergyProperties'')]))
         # slots room_original\<rparr>"
      "''energy''" energy_value energy_from_dict
      "JDict [(''type'', JStr ''RoomEnergyProperties'')]"
      "energy_loaded (JDict [(''type'', JStr ''RoomEnergyProperties'')])"]
  unfolding duplicate_extension_attr_def load_extension_attr_from_dict_def
    extension_attributes_room_copy extension_attributes_room_original
  by (simp add: model_defs example_defs)

section \<open>Reserved names\<close>

text \<open>
  The enumeration of the base class yields no name with a leading underscore and none
  of \<open>host\<close>, \<open>to_dict\<close>, \<open>ToString\<close> (lemma \<open>extension_attributes_public\<close>). The
  enumeration inside \<open>ModelProperties.to_dict\<close> excludes the leading underscore and
  \<open>host\<close> only.
\<close>

lemma model_to_dict_attributes_public:
  "atr \<in> set (model_to_dict_attributes self) \<Longrightarrow>
     \<not> startswith_underscore atr \<and> atr \<noteq> ''host''"
  by (simp add: model_to_dict_attributes_def)

text \<open>
  Claim C6 at a failing input. On a model's properties with no extension attached, the
  enumeration of \<open>ModelProperties.to_dict\<close> yields \<open>ToString\<close> and \<open>to_dict\<close>, two of
  the three names of \<open>_do_not_duplicate\<close>; the enumeration of the base class on the
  same object yields neither.
\<close>

theorem model_to_dict_enumerates_reserved_evaluation:
  "model_to_dict_attributes (init_properties Model (Host ''model_1'') (opaque ''Model''))
     = [''ToString'', ''apply_properties_from_dict'', ''to_dict'']
   \<and> extension_attributes (init_properties Model (Host ''model_1'') (opaque ''Model''))
     = [''apply_properties_from_dict'']
   \<and> ''ToString'' \<in> set do_not_duplicate \<and> ''to_dict'' \<in> set do_not_duplicate"
  by code_simp

section \<open>Round trip\<close>














end
